theory Spec2Isabelle
  imports Main
begin

section \<open>Data model\<close>

text \<open>
  The windowed list keeps two pieces of data (class \<open>FixedHeightListViewDataSource\<close>):
  the flattened row sequence \<open>_dataSource\<close> and the per-section table \<open>_lookup\<close>.

  Numbers: row indices, counts and pixel quantities are modelled as unbounded integers.
  The source computes on doubles, which are exact on integers of this size; heights and
  offsets with a fractional part, where doubles round, are outside the model. Where the
  source would produce a value that is not an integer (\<open>NaN\<close>,
  \<open>Infinity\<close>) the model returns \<open>Inl NonFinite\<close>; where the source would throw
  on a property read of \<open>undefined\<close> it returns \<open>Inl TypeError\<close>; a failed
  \<open>invariant(...)\<close> is \<open>Inl InvariantViolation\<close>. A JavaScript \<open>undefined\<close> or
  \<open>null\<close> result is \<open>None\<close>.

  Objects used as dictionaries (\<open>dataBlob\<close>, \<open>_lookup\<close>) are association lists of
  their own keys in enumeration order: keys that are array indices first, in ascending
  numeric order, then the other keys in the order of their first insertion. The key
  \<open>__proto__\<close>, whose assignment sets the prototype instead of adding a key, is
  not a section identifier here, and \<open>dataBlob\<close> is read by own keys only.
\<close>

datatype error = TypeError | InvariantViolation | NonFinite

text \<open>
  A cell payload is opaque but for one property the data source reads: its \<open>sectionId\<close>,
  when the payload is an object that has one (given as the property key it names).
\<close>

datatype 'a payload = Payload (payload_sectionId: "string option") (payload_value: 'a)

text \<open>A row is a section header \<open>{ sectionId }\<close> or a cell payload.\<close>

datatype 'a row = SectionHeader string | Cell "'a payload"

text \<open>One entry of \<open>_lookup\<close>; \<open>range0\<close> and \<open>range1\<close> are \<open>range[0]\<close> and \<open>range[1]\<close>.\<close>

record section_entry =
  count :: int
  range0 :: int
  range1 :: int
  height :: int
  startY :: int
  endY :: int
  cellHeight :: int
  sectionHeaderHeight :: int
  sectionId :: string

record 'a datasource =
  dataSource :: "'a row list"
  lookup :: "(string \<times> section_entry) list"
  getHeightForSectionHeader :: "string \<Rightarrow> int"
  getHeightForCell :: "string \<Rightarrow> int"

text \<open>The constructor: empty row sequence, empty table, the two height callbacks.\<close>

definition new_datasource :: "(string \<Rightarrow> int) \<Rightarrow> (string \<Rightarrow> int) \<Rightarrow> 'a datasource" where
  "new_datasource hh ch =
     \<lparr>dataSource = [], lookup = [], getHeightForSectionHeader = hh, getHeightForCell = ch\<rparr>"

text \<open>
  An array index is a key that is the canonical decimal numeral of an integer from 0 to
  \<open>2\<^sup>3\<^sup>2 - 2\<close>: digits only, no leading zero.
\<close>

definition digit_value :: "char \<Rightarrow> nat" where
  "digit_value c = length (takeWhile (\<lambda>d. d \<noteq> c) ''0123456789'')"

definition index_value :: "string \<Rightarrow> nat" where
  "index_value k = foldl (\<lambda>n c. 10 * n + digit_value c) 0 k"

definition is_array_index :: "string \<Rightarrow> bool" where
  "is_array_index k =
     (k \<noteq> [] \<and> list_all (\<lambda>c. digit_value c < 10) k \<and>
      (if hd k = CHR ''0'' then k = ''0'' else True) \<and>
      index_value k \<le> 4294967294)"

text \<open>
  \<open>obj[k] = v\<close>: an existing key keeps its place; a new array index goes before the
  first key that is not a smaller array index; any other new key goes last.
\<close>

fun js_update :: "(string \<times> 'v) list \<Rightarrow> string \<Rightarrow> 'v \<Rightarrow> (string \<times> 'v) list" where
  "js_update [] k v = []"
| "js_update ((k', v') # kvs) k v =
     (if k' = k then (k, v) # kvs else (k', v') # js_update kvs k v)"

fun js_insert_index :: "(string \<times> 'v) list \<Rightarrow> string \<Rightarrow> 'v \<Rightarrow> (string \<times> 'v) list" where
  "js_insert_index [] k v = [(k, v)]"
| "js_insert_index ((k', v') # kvs) k v =
     (if is_array_index k' \<and> index_value k' < index_value k
        then (k', v') # js_insert_index kvs k v
      else (k, v) # (k', v') # kvs)"

definition js_set :: "(string \<times> 'v) list \<Rightarrow> string \<Rightarrow> 'v \<Rightarrow> (string \<times> 'v) list" where
  "js_set kvs k v =
     (if map_of kvs k \<noteq> None then js_update kvs k v
      else if is_array_index k then js_insert_index kvs k v
      else kvs @ [(k, v)])"

text \<open>
  The names every object inherits from \<open>Object.prototype\<close>; reading one of them on a
  dictionary that has no own key of that name gives a truthy value.
\<close>

definition object_prototype_names :: "string list" where
  "object_prototype_names =
     [''constructor'', ''__defineGetter__'', ''__defineSetter__'', ''hasOwnProperty'',
      ''__lookupGetter__'', ''__lookupSetter__'', ''isPrototypeOf'',
      ''propertyIsEnumerable'', ''toString'', ''valueOf'', ''__proto__'',
      ''toLocaleString'']"

text \<open>\<open>xs[i]\<close> on an array: \<open>undefined\<close> outside \<open>0 .. length - 1\<close>.\<close>

definition js_index :: "'a list \<Rightarrow> int \<Rightarrow> 'a option" where
  "js_index xs i = (if 0 \<le> i \<and> i < int (length xs) then Some (xs ! nat i) else None)"

section \<open>Building the geometry index: \<open>cloneWithCellsAndSections\<close>\<close>

text \<open>
  The \<open>sectionIds.forEach\<close> loop: a section identifier that has an entry in the blob
  pushes its header row and its cells, and is recorded as present.
\<close>

fun push_sections ::
  "(string \<times> 'a payload list) list \<Rightarrow> string list \<Rightarrow> 'a row list \<Rightarrow> string list
     \<Rightarrow> 'a row list \<times> string list" where
  "push_sections dataBlob [] rows sectionIdsPresent = (rows, sectionIdsPresent)"
| "push_sections dataBlob (sid # sids) rows sectionIdsPresent =
     (case map_of dataBlob sid of
        Some cells \<Rightarrow>
          push_sections dataBlob sids (rows @ SectionHeader sid # map Cell cells)
            (sectionIdsPresent @ [sid])
      | None \<Rightarrow> push_sections dataBlob sids rows sectionIdsPresent)"

text \<open>
  The \<open>sectionIdsPresent.reduce\<close> loop, with its two running variables \<open>lastRow\<close> and
  \<open>cumulativeHeight\<close>. Every identifier it visits has an entry in the blob (the loop
  above put it there), so the \<open>None\<close> branch is never taken.
\<close>

fun reduce_lookup ::
  "(string \<Rightarrow> int) \<Rightarrow> (string \<Rightarrow> int) \<Rightarrow> (string \<times> 'a payload list) list \<Rightarrow> string list
     \<Rightarrow> int \<Rightarrow> int \<Rightarrow> (string \<times> section_entry) list \<Rightarrow> (string \<times> section_entry) list" where
  "reduce_lookup hh ch dataBlob [] lastRow cumulativeHeight result = result"
| "reduce_lookup hh ch dataBlob (sid # sids) lastRow cumulativeHeight result =
     (let shh = hh sid;
          cht = ch sid;
          cnt = (case map_of dataBlob sid of Some cells \<Rightarrow> int (length cells) | None \<Rightarrow> 0);
          sectionHeight = shh + cht * cnt;
          entry = \<lparr>count = cnt + 1,
                   range0 = lastRow + 1,
                   range1 = lastRow + 1 + cnt,
                   height = sectionHeight,
                   startY = cumulativeHeight,
                   endY = cumulativeHeight + sectionHeight,
                   cellHeight = cht,
                   sectionHeaderHeight = shh,
                   sectionId = sid\<rparr>
      in reduce_lookup hh ch dataBlob sids (lastRow + 1 + cnt)
           (cumulativeHeight + sectionHeight) (js_set result sid entry))"

text \<open>
  The default of the second parameter of \<open>cloneWithCellsAndSections\<close>:
  \<open>sectionIds = Object.keys(dataBlob)\<close>; \<open>None\<close> is the omitted argument.
\<close>

definition sectionIds_of :: "(string \<times> 'a payload list) list \<Rightarrow> string list option \<Rightarrow> string list" where
  "sectionIds_of dataBlob sectionIdsArg =
     (case sectionIdsArg of Some ids \<Rightarrow> ids | None \<Rightarrow> map fst dataBlob)"

text \<open>\<open>cloneWithCellsAndSections\<close>: both fields are rebuilt from scratch.\<close>

definition cloneWithCellsAndSections ::
  "'a datasource \<Rightarrow> (string \<times> 'a payload list) list \<Rightarrow> string list option \<Rightarrow> 'a datasource" where
  "cloneWithCellsAndSections ds dataBlob sectionIdsArg =
     (let sectionIds = sectionIds_of dataBlob sectionIdsArg;
          (rows, sectionIdsPresent) = push_sections dataBlob sectionIds [] []
      in ds\<lparr>dataSource := rows,
             lookup := reduce_lookup (getHeightForSectionHeader ds) (getHeightForCell ds)
                         dataBlob sectionIdsPresent (- 1) 0 []\<rparr>)"

section \<open>Geometry queries\<close>

definition getRowCount :: "'a datasource \<Rightarrow> int" where
  "getRowCount ds = int (length (dataSource ds))"

text \<open>
  \<open>getTotalHeight\<close>: the \<open>endY\<close> of the entry under the last key, \<open>0\<close> for an empty
  table.
\<close>

definition getTotalHeight :: "'a datasource \<Rightarrow> int" where
  "getTotalHeight ds = (case lookup ds of [] \<Rightarrow> 0 | _ # _ \<Rightarrow> endY (snd (last (lookup ds))))"

text \<open>\<open>getHeightBeforeRow\<close>: the \<open>_.forEach\<close> over the table accumulates \<open>height\<close>.\<close>

definition heightBeforeRow_step :: "int \<Rightarrow> section_entry \<Rightarrow> int \<Rightarrow> int" where
  "heightBeforeRow_step i s h =
     (if i > range0 s \<and> i \<le> range1 s
        then h + sectionHeaderHeight s + ((i - 1) - range0 s) * cellHeight s
      else if range0 s < i then h + height s
      else h)"

definition getHeightBeforeRow :: "'a datasource \<Rightarrow> int \<Rightarrow> int" where
  "getHeightBeforeRow ds i = fold (heightBeforeRow_step i) (map snd (lookup ds)) 0"

text \<open>
  \<open>hasSection\<close> is \<open>!!this._lookup[sectionId]\<close>: true for an own key (every entry
  is an object) and for an inherited name.
\<close>

definition hasSection :: "'a datasource \<Rightarrow> string \<Rightarrow> bool" where
  "hasSection ds sid =
     (map_of (lookup ds) sid \<noteq> None \<or> sid \<in> set object_prototype_names)"

text \<open>
  \<open>getFirstRowOfSection\<close> reads \<open>range\<close> and \<open>startY\<close> of \<open>_lookup[sectionId]\<close>
  and then \<open>range[0]\<close>. With no own key the first read (no such name) or the read of
  \<open>range[0]\<close> (inherited name, whose value has no \<open>range\<close>) throws.
\<close>

definition getFirstRowOfSection :: "'a datasource \<Rightarrow> string \<Rightarrow> error + int \<times> int" where
  "getFirstRowOfSection ds sid =
     (case map_of (lookup ds) sid of
        None \<Rightarrow> Inl TypeError
      | Some s \<Rightarrow> Inr (range0 s, startY s))"

text \<open>
  \<open>getHeightBetweenRows\<close>: reversed bounds are written to the console with
  \<open>console.warn\<close>, and the difference is returned in every case. The model returns the
  console lines together with the value.
\<close>

definition getHeightBetweenRows :: "'a datasource \<Rightarrow> int \<Rightarrow> int \<Rightarrow> error + string list \<times> int" where
  "getHeightBetweenRows ds i ii =
     Inr (if ii < i then [''provide the lower index first''] else [],
          getHeightBeforeRow ds ii - getHeightBeforeRow ds (i + 1))"

text \<open>\<open>getRowData\<close> is a plain array read.\<close>

definition getRowData :: "'a datasource \<Rightarrow> int \<Rightarrow> error + 'a row option" where
  "getRowData ds i = Inr (js_index (dataSource ds) i)"

text \<open>
  \<open>getRowAtHeight\<close>. \<open>_.find\<close> returns the first entry whose closed interval holds
  \<open>scrollY\<close>; with no such entry the read of \<open>parentSection.startY\<close> throws.
  \<open>Math.floor(a / b)\<close> is \<open>a div b\<close> on integers with \<open>b \<noteq> 0\<close>; with \<open>b = 0\<close> the
  source yields \<open>Infinity\<close> (the dividend is positive on that branch).
\<close>

definition getRowAtHeight :: "'a datasource \<Rightarrow> int \<Rightarrow> error + int" where
  "getRowAtHeight ds scrollY =
     (if scrollY < 0 then Inr 0
      else if scrollY > getTotalHeight ds then Inr (max (getRowCount ds - 1) 0)
      else
        (case find (\<lambda>v. scrollY \<ge> startY v \<and> scrollY \<le> endY v) (map snd (lookup ds)) of
           None \<Rightarrow> Inl TypeError
         | Some parentSection \<Rightarrow>
             (let relativeY = scrollY - startY parentSection in
              if relativeY \<le> sectionHeaderHeight parentSection
                then Inr (range0 parentSection)
              else if cellHeight parentSection = 0 then Inl NonFinite
              else Inr (range0 parentSection +
                        (relativeY - sectionHeaderHeight parentSection)
                          div cellHeight parentSection))))"








section \<open>The shape of a built index\<close>

text \<open>
  What the two loops of \<open>cloneWithCellsAndSections\<close> produce, written without their
  accumulators: the rows of a list of section identifiers, and the table entries of a
  list of present identifiers from a first row \<open>r\<close> and a first offset \<open>y\<close>.
\<close>

fun rows_of :: "(string \<times> 'a payload list) list \<Rightarrow> string list \<Rightarrow> 'a row list" where
  "rows_of dataBlob [] = []"
| "rows_of dataBlob (sid # sids) =
     (case map_of dataBlob sid of
        Some cells \<Rightarrow> SectionHeader sid # map Cell cells
      | None \<Rightarrow> []) @ rows_of dataBlob sids"

fun entries_from ::
  "(string \<Rightarrow> int) \<Rightarrow> (string \<Rightarrow> int) \<Rightarrow> (string \<times> 'a payload list) list \<Rightarrow> string list
     \<Rightarrow> int \<Rightarrow> int \<Rightarrow> (string \<times> section_entry) list" where
  "entries_from hh ch dataBlob [] r y = []"
| "entries_from hh ch dataBlob (sid # sids) r y =
     (let cnt = (case map_of dataBlob sid of Some cells \<Rightarrow> int (length cells) | None \<Rightarrow> 0);
          h = hh sid + ch sid * cnt
      in (sid, \<lparr>count = cnt + 1, range0 = r, range1 = r + cnt, height = h,
                startY = y, endY = y + h, cellHeight = ch sid,
                sectionHeaderHeight = hh sid, sectionId = sid\<rparr>)
         # entries_from hh ch dataBlob sids (r + cnt + 1) (y + h))"




section \<open>The window step: \<open>computeRowsToRender\<close>\<close>

datatype direction = Down | Up

record options =
  scrollDirection :: direction
  firstVisible :: int
  lastVisible :: int
  firstRendered :: int
  lastRendered :: int
  maxNumToRender :: int
  pageSize :: int
  numToRenderAhead :: int
  numToRenderBehind :: int
  totalRows :: int

text \<open>
  \<open>__computeFirstRow\<close> and \<open>__computeLastRow\<close> receive the options merged with
  \<open>numRendered\<close> and with the edge computed first (\<open>lastRow\<close>, respectively
  \<open>firstRow\<close>), which is absent in the call that computes the leading edge. Each
  returns the pair (row, target row). \<open>Math.max\<close> with the absent edge is \<open>NaN\<close>;
  a comparison with \<open>NaN\<close> is false.
\<close>

definition computeFirstRow :: "options \<Rightarrow> int \<Rightarrow> int option \<Rightarrow> error + int \<times> int" where
  "computeFirstRow opts numRendered lastRow =
     (case scrollDirection opts of
        Down \<Rightarrow>
          (case lastRow of
             None \<Rightarrow> Inl NonFinite
           | Some l \<Rightarrow>
               (let firstRow = max 0 (max (firstVisible opts - numToRenderBehind opts)
                                          (l - maxNumToRender opts))
                in Inr (firstRow, firstRow)))
      | Up \<Rightarrow>
          (let targetFirstRow =
                 max 0 (firstVisible opts - numToRenderAhead opts + numToRenderBehind opts);
               firstRow = max targetFirstRow (firstRendered opts - pageSize opts)
           in Inr (firstRow, targetFirstRow)))"

definition computeLastRow :: "options \<Rightarrow> int \<Rightarrow> int option \<Rightarrow> error + int \<times> int" where
  "computeLastRow opts numRendered firstRow =
     (case scrollDirection opts of
        Down \<Rightarrow>
          (let targetLastRow =
                 min (totalRows opts - 1)
                   (min (lastVisible opts + numToRenderAhead opts - numToRenderBehind opts)
                        (firstVisible opts + numRendered + numToRenderAhead opts
                           - numToRenderBehind opts));
               lastRow = min targetLastRow (lastRendered opts + pageSize opts)
           in Inr (lastRow, targetLastRow))
      | Up \<Rightarrow>
          (case firstRow of
             None \<Rightarrow> Inr (lastRendered opts, lastRendered opts)
           | Some f \<Rightarrow>
               (let numToBeRendered = lastRendered opts - f in
                if numToBeRendered > maxNumToRender opts
                  then (let lastRow = lastRendered opts - (numToBeRendered - maxNumToRender opts)
                        in Inr (lastRow, lastRow))
                else Inr (lastRendered opts, lastRendered opts))))"

text \<open>
  \<open>computeRowsToRender\<close> returns \<open>(firstRow, lastRow, targetFirstRow, targetLastRow)\<close>.
\<close>

definition computeRowsToRender :: "options \<Rightarrow> error + int \<times> int \<times> int \<times> int" where
  "computeRowsToRender opts =
     (if \<not> numToRenderAhead opts < maxNumToRender opts then Inl InvariantViolation
      else
        (let numRendered = lastRendered opts - firstRendered opts + 1 in
         case scrollDirection opts of
           Down \<Rightarrow>
             (case computeLastRow opts numRendered None of
                Inl e \<Rightarrow> Inl e
              | Inr (lastRow, targetLastRow) \<Rightarrow>
                  (case computeFirstRow opts numRendered (Some lastRow) of
                     Inl e \<Rightarrow> Inl e
                   | Inr (firstRow, targetFirstRow) \<Rightarrow>
                       Inr (firstRow, lastRow, targetFirstRow, targetLastRow)))
         | Up \<Rightarrow>
             (case computeFirstRow opts numRendered None of
                Inl e \<Rightarrow> Inl e
              | Inr (firstRow, targetFirstRow) \<Rightarrow>
                  (case computeLastRow opts numRendered (Some firstRow) of
                     Inl e \<Rightarrow> Inl e
                   | Inr (lastRow, targetLastRow) \<Rightarrow>
                       Inr (firstRow, lastRow, targetFirstRow, targetLastRow)))))"

section \<open>The window controller: \<open>FixedHeightWindowedListView\<close>\<close>

text \<open>
  The component's props (the data source and the rendering budgets), its React state
  (the row window and the optional buffer window) and the instance fields the jump
  logic reads and writes. \<open>setState\<close> is modelled as the merge it commits; the calls
  the component makes on its environment are returned as a list of effects.
\<close>

record 'a props =
  p_dataSource :: "'a datasource"
  p_initialNumToRender :: int
  p_maxNumToRender :: int
  p_numToRenderAhead :: int
  p_numToRenderBehind :: int
  p_pageSize :: int

record view_state =
  firstRow :: int
  lastRow :: int
  bufferFirstRow :: "int option"
  bufferLastRow :: "int option"

record 'a view =
  props :: "'a props"
  state :: view_state
  isScrollingToSection :: bool
  nextSectionToScrollTo :: "string option"
  willComputeRowsToRender :: bool

text \<open>\<open>ScrollTo y animated\<close> is \<open>scrollRef.scrollTo({ y, animated })\<close>.\<close>

datatype effect = ClearTimeout | ScrollTo int bool

text \<open>The constructor checks the two configuration invariants and sets the first window.\<close>

definition constructor :: "'a props \<Rightarrow> error + 'a view" where
  "constructor p =
     (if \<not> p_numToRenderAhead p < p_maxNumToRender p then Inl InvariantViolation
      else if \<not> p_numToRenderBehind p < p_maxNumToRender p then Inl InvariantViolation
      else Inr \<lparr>props = p,
                state = \<lparr>firstRow = 0,
                          lastRow = min (getRowCount (p_dataSource p) - 1)
                                      (p_initialNumToRender p),
                          bufferFirstRow = None,
                          bufferLastRow = None\<rparr>,
                isScrollingToSection = False,
                nextSectionToScrollTo = None,
                willComputeRowsToRender = False\<rparr>)"

text \<open>
  \<open>scrollToSectionBuffered\<close>, the part that runs synchronously: the pending recompute
  is cleared, the jump flag is raised, the buffer window is set and the scroll view is
  told to move. Otherwise only the most recent request is remembered. The callbacks
  that later copy the buffer window into the row window run in later ticks.
\<close>

definition scrollToSectionBuffered :: "'a view \<Rightarrow> string \<Rightarrow> error + 'a view \<times> effect list" where
  "scrollToSectionBuffered v sid =
     (let ds = p_dataSource (props v) in
      if \<not> isScrollingToSection v \<and> hasSection ds sid then
        (case getFirstRowOfSection ds sid of
           Inl e \<Rightarrow> Inl e
         | Inr (row, y) \<Rightarrow>
             (let initialNumToRender = p_initialNumToRender (props v);
                  totalRows = getRowCount ds;
                  lastRow = totalRows - 1;
                  windowLastRow = min lastRow (row + initialNumToRender);
                  windowFirstRow =
                    (if windowLastRow - lastRow = 0
                       then max 0 (windowLastRow - initialNumToRender)
                     else row)
              in Inr (v\<lparr>willComputeRowsToRender := False,
                         isScrollingToSection := True,
                         state := (state v)\<lparr>bufferFirstRow := Some windowFirstRow,
                                             bufferLastRow := Some windowLastRow\<rparr>\<rparr>,
                      [ClearTimeout, ScrollTo y False])))
      else Inr (v\<lparr>nextSectionToScrollTo := Some sid\<rparr>, []))"

section \<open>The two-section example\<close>

text \<open>
  Sections \<open>A\<close> with three cells and \<open>B\<close> with two, header height 20, cell height 50.
\<close>

definition example_blob :: "(string \<times> string payload list) list" where
  "example_blob =
     [(''A'', [Payload None ''A0'', Payload None ''A1'', Payload None ''A2'']),
      (''B'', [Payload None ''B0'', Payload None ''B1''])]"

definition example_ds :: "string datasource" where
  "example_ds =
     cloneWithCellsAndSections (new_datasource (\<lambda>_. 20) (\<lambda>_. 50)) example_blob None"

text \<open>The example list under the default budgets, with \<open>initialNumToRender = 1\<close>.\<close>

definition example_props :: "string props" where
  "example_props =
     \<lparr>p_dataSource = example_ds, p_initialNumToRender = 1, p_maxNumToRender = 20,
      p_numToRenderAhead = 4, p_numToRenderBehind = 2, p_pageSize = 5\<rparr>"

definition example_view :: "string view" where
  "example_view =
     \<lparr>props = example_props,
      state = \<lparr>firstRow = 0, lastRow = 1, bufferFirstRow = None, bufferLastRow = None\<rparr>,
      isScrollingToSection = False,
      nextSectionToScrollTo = None,
      willComputeRowsToRender = False\<rparr>"

text \<open>The step inputs of the worked example: window \<open>[0, 10]\<close>, rows 8 to 10 visible.\<close>

definition example_opts :: options where
  "example_opts =
     \<lparr>scrollDirection = Down, firstVisible = 8, lastVisible = 10,
      firstRendered = 0, lastRendered = 10, maxNumToRender = 20, pageSize = 5,
      numToRenderAhead = 4, numToRenderBehind = 2, totalRows = 100\<rparr>"

text \<open>
  Two step inputs with a full window of 20 rows: scrolling up from window \<open>[10, 29]\<close>
  with rows 10 to 15 visible, and scrolling down from window \<open>[0, 19]\<close> with rows 2 to
  20 visible.
\<close>

definition full_window_up :: options where
  "full_window_up =
     \<lparr>scrollDirection = Up, firstVisible = 10, lastVisible = 15,
      firstRendered = 10, lastRendered = 29, maxNumToRender = 20, pageSize = 5,
      numToRenderAhead = 4, numToRenderBehind = 2, totalRows = 100\<rparr>"

definition full_window_down :: options where
  "full_window_down =
     \<lparr>scrollDirection = Down, firstVisible = 2, lastVisible = 20,
      firstRendered = 0, lastRendered = 19, maxNumToRender = 20, pageSize = 5,
      numToRenderAhead = 4, numToRenderBehind = 2, totalRows = 100\<rparr>"

text \<open>
  The inputs a step is meant for: the configuration invariants, a rendered window inside
  the list and within the budget, a visible range inside the list, a non-empty list.
\<close>

definition step_precondition :: "options \<Rightarrow> bool" where
  "step_precondition opts =
     (numToRenderAhead opts < maxNumToRender opts \<and>
      numToRenderBehind opts < maxNumToRender opts \<and>
      0 \<le> firstRendered opts \<and>
      firstRendered opts \<le> lastRendered opts + 1 \<and>
      lastRendered opts + 1 \<le> totalRows opts \<and>
      lastRendered opts - firstRendered opts + 1 \<le> maxNumToRender opts \<and>
      0 \<le> firstVisible opts \<and>
      firstVisible opts \<le> lastVisible opts \<and>
      lastVisible opts \<le> totalRows opts \<and>
      0 < totalRows opts)"

text \<open>
  Three further lists with header height 20 and cell height 50. The sections \<open>2\<close> (one
  cell) and \<open>1\<close> (two cells), listed in that order; the example's section \<open>A\<close> listed
  twice; and a section \<open>A\<close> whose only cell is an object with its own \<open>sectionId\<close>,
  \<open>Z\<close>.
\<close>

definition numeric_blob :: "(string \<times> string payload list) list" where
  "numeric_blob =
     [(''1'', [Payload None ''x'', Payload None ''y'']), (''2'', [Payload None ''z''])]"

definition numeric_ds :: "string datasource" where
  "numeric_ds =
     cloneWithCellsAndSections (new_datasource (\<lambda>_. 20) (\<lambda>_. 50)) numeric_blob
       (Some [''2'', ''1''])"





section \<open>The example, evaluated\<close>

lemma letters_not_indices:
  "\<not> is_array_index ''A''" "\<not> is_array_index ''B''"
  by (simp_all add: is_array_index_def digit_value_def)


lemma example_rows:
  "dataSource example_ds =
     [SectionHeader ''A'', Cell (Payload None ''A0''), Cell (Payload None ''A1''),
      Cell (Payload None ''A2''),
      SectionHeader ''B'', Cell (Payload None ''B0''), Cell (Payload None ''B1'')]"
  by (simp add: example_ds_def example_blob_def cloneWithCellsAndSections_def
        new_datasource_def sectionIds_of_def)

lemma example_lookup:
  "lookup example_ds =
     [(''A'', \<lparr>count = 4, range0 = 0, range1 = 3, height = 170, startY = 0, endY = 170,
               cellHeight = 50, sectionHeaderHeight = 20, sectionId = ''A''\<rparr>),
      (''B'', \<lparr>count = 3, range0 = 4, range1 = 6, height = 120, startY = 170, endY = 290,
               cellHeight = 50, sectionHeaderHeight = 20, sectionId = ''B''\<rparr>)]"
  by (simp add: example_ds_def example_blob_def cloneWithCellsAndSections_def
        new_datasource_def sectionIds_of_def js_set_def letters_not_indices)

lemma numeric_rows:
  "dataSource numeric_ds =
     [SectionHeader ''2'', Cell (Payload None ''z''),
      SectionHeader ''1'', Cell (Payload None ''x''), Cell (Payload None ''y'')]"
  by (simp add: numeric_ds_def numeric_blob_def cloneWithCellsAndSections_def
        new_datasource_def sectionIds_of_def)






lemma example_rowCount: "getRowCount example_ds = 7"
  by (simp add: getRowCount_def example_rows)

lemma example_totalHeight: "getTotalHeight example_ds = 290"
  by (simp add: getTotalHeight_def example_lookup)





lemma example_view_simps:
  "props example_view = example_props" "\<not> isScrollingToSection example_view"
  "p_dataSource example_props = example_ds" "p_initialNumToRender example_props = 1"
  "p_numToRenderAhead example_props < p_maxNumToRender example_props"
  "p_numToRenderBehind example_props < p_maxNumToRender example_props"
  by (simp_all add: example_view_def example_props_def)

lemma example_section_B:
  "map_of (lookup example_ds) ''B'' =
     Some \<lparr>count = 3, range0 = 4, range1 = 6, height = 120, startY = 170, endY = 290,
           cellHeight = 50, sectionHeaderHeight = 20, sectionId = ''B''\<rparr>"
  by (simp add: example_lookup)

section \<open>Geometry of the example\<close>

text \<open>
  Claim C2. On the two-section example the claim expects the height before row 4 to be
  170, the row at height 170 to be row 4, the row at height 0 to be row 0 and the total
  height to be 290. The code agrees on three of the four values; at height 170 it
  answers row 3: the scan stops at section \<open>A\<close>, whose closed interval \<open>[0, 170]\<close>
  holds 170, and inside a section the cell at zero-based position \<open>j\<close> is reported as
  row \<open>range[0] + j\<close>, one less than the row \<open>getHeightBeforeRow\<close> places there.
\<close>

theorem example_geometry:
  "getHeightBeforeRow example_ds 4 = 170 \<and>
   getRowAtHeight example_ds 170 = Inr 3 \<and>
   getRowAtHeight example_ds 0 = Inr 0 \<and>
   getTotalHeight example_ds = 290"
  by (simp add: getHeightBeforeRow_def heightBeforeRow_step_def getRowAtHeight_def
        example_totalHeight example_lookup)

text \<open>
  The same shift away from a boundary: height 45 lies inside cell \<open>A0\<close> (row 1, which
  starts at 20 and ends at 70), and the answer is the header row 0.
\<close>

lemma example_row_inside_first_cell:
  "getHeightBeforeRow example_ds 1 = 20 \<and> getHeightBeforeRow example_ds 2 = 70 \<and>
   getRowAtHeight example_ds 45 = Inr 0"
  by (simp add: getHeightBeforeRow_def heightBeforeRow_step_def getRowAtHeight_def
        example_totalHeight example_lookup)

section \<open>The window step\<close>

text \<open>What each helper returns in each scroll direction.\<close>

lemma computeLastRow_Down:
  "scrollDirection opts = Down \<Longrightarrow>
   computeLastRow opts n fr =
     Inr (min (min (totalRows opts - 1)
                 (min (lastVisible opts + numToRenderAhead opts - numToRenderBehind opts)
                      (firstVisible opts + n + numToRenderAhead opts
                         - numToRenderBehind opts)))
              (lastRendered opts + pageSize opts),
          min (totalRows opts - 1)
            (min (lastVisible opts + numToRenderAhead opts - numToRenderBehind opts)
                 (firstVisible opts + n + numToRenderAhead opts - numToRenderBehind opts)))"
  unfolding computeLastRow_def Let_def by (simp only: direction.case)

lemma computeFirstRow_Down:
  "scrollDirection opts = Down \<Longrightarrow>
   computeFirstRow opts n (Some l) =
     Inr (max 0 (max (firstVisible opts - numToRenderBehind opts) (l - maxNumToRender opts)),
          max 0 (max (firstVisible opts - numToRenderBehind opts) (l - maxNumToRender opts)))"
  unfolding computeFirstRow_def Let_def by (simp only: direction.case option.case)

lemma computeFirstRow_Up:
  "scrollDirection opts = Up \<Longrightarrow>
   computeFirstRow opts n lr =
     Inr (max (max 0 (firstVisible opts - numToRenderAhead opts + numToRenderBehind opts))
              (firstRendered opts - pageSize opts),
          max 0 (firstVisible opts - numToRenderAhead opts + numToRenderBehind opts))"
  unfolding computeFirstRow_def Let_def by (simp only: direction.case)

lemma computeLastRow_Up:
  "scrollDirection opts = Up \<Longrightarrow>
   computeLastRow opts n (Some f) =
     (if lastRendered opts - f > maxNumToRender opts
        then Inr (lastRendered opts - (lastRendered opts - f - maxNumToRender opts),
                  lastRendered opts - (lastRendered opts - f - maxNumToRender opts))
      else Inr (lastRendered opts, lastRendered opts))"
  unfolding computeLastRow_def Let_def by (simp only: direction.case option.case)

lemma computeRowsToRender_Down:
  "scrollDirection opts = Down \<Longrightarrow> numToRenderAhead opts < maxNumToRender opts \<Longrightarrow>
   computeLastRow opts (lastRendered opts - firstRendered opts + 1) None = Inr (l, tgl) \<Longrightarrow>
   computeFirstRow opts (lastRendered opts - firstRendered opts + 1) (Some l) = Inr (f, tgf) \<Longrightarrow>
   computeRowsToRender opts = Inr (f, l, tgf, tgl)"
  unfolding computeRowsToRender_def Let_def by simp

lemma computeRowsToRender_Up:
  "scrollDirection opts = Up \<Longrightarrow> numToRenderAhead opts < maxNumToRender opts \<Longrightarrow>
   computeFirstRow opts (lastRendered opts - firstRendered opts + 1) None = Inr (f, tgf) \<Longrightarrow>
   computeLastRow opts (lastRendered opts - firstRendered opts + 1) (Some f) = Inr (l, tgl) \<Longrightarrow>
   computeRowsToRender opts = Inr (f, l, tgf, tgl)"
  unfolding computeRowsToRender_def Let_def by simp


text \<open>
  What every step on well-formed inputs guarantees: it returns, the first row is not
  negative, the last row is inside the list, and the two edges are at most
  \<open>maxNumToRender\<close> apart.
\<close>

lemma down_edge_bound: "l - max 0 (max a (l - m)) \<le> (m::int)"
  by linarith

lemma up_edge_bound:
  "(if m < r - f then r - (r - f - m) else r) - f \<le> (m::int)"
  by simp

lemma computeRowsToRender_span:
  assumes "step_precondition opts"
  shows "\<exists>f l tgf tgl. computeRowsToRender opts = Inr (f, l, tgf, tgl) \<and>
           0 \<le> f \<and> l \<le> totalRows opts - 1 \<and> l - f \<le> maxNumToRender opts"
proof (cases "scrollDirection opts")
  case Down
  define n where "n = lastRendered opts - firstRendered opts + 1"
  define tgl where
    "tgl = min (totalRows opts - 1)
            (min (lastVisible opts + numToRenderAhead opts - numToRenderBehind opts)
                 (firstVisible opts + n + numToRenderAhead opts - numToRenderBehind opts))"
  define l where "l = min tgl (lastRendered opts + pageSize opts)"
  define f where
    "f = max 0 (max (firstVisible opts - numToRenderBehind opts) (l - maxNumToRender opts))"
  have inv: "numToRenderAhead opts < maxNumToRender opts"
    using assms unfolding step_precondition_def by blast
  have "computeLastRow opts n None = Inr (l, tgl)"
    unfolding l_def tgl_def by (rule computeLastRow_Down [OF Down])
  moreover have "computeFirstRow opts n (Some l) = Inr (f, f)"
    unfolding f_def by (rule computeFirstRow_Down [OF Down])
  ultimately have r: "computeRowsToRender opts = Inr (f, l, f, tgl)"
    unfolding n_def by (rule computeRowsToRender_Down [OF Down inv])
  have "0 \<le> f" unfolding f_def by (rule max.cobounded1)
  moreover have "tgl \<le> totalRows opts - 1" unfolding tgl_def by (rule min.cobounded1)
  then have "l \<le> totalRows opts - 1" unfolding l_def by (rule min.coboundedI1)
  moreover have "l - f \<le> maxNumToRender opts"
    unfolding f_def by (rule down_edge_bound)
  ultimately show ?thesis using r by blast
next
  case Up
  define n where "n = lastRendered opts - firstRendered opts + 1"
  define tgf where
    "tgf = max 0 (firstVisible opts - numToRenderAhead opts + numToRenderBehind opts)"
  define f where "f = max tgf (firstRendered opts - pageSize opts)"
  define l where
    "l = (if maxNumToRender opts < lastRendered opts - f
            then lastRendered opts - (lastRendered opts - f - maxNumToRender opts)
          else lastRendered opts)"
  have inv: "numToRenderAhead opts < maxNumToRender opts"
    and lr: "lastRendered opts + 1 \<le> totalRows opts"
    using assms unfolding step_precondition_def by blast+
  have "computeFirstRow opts n None = Inr (f, tgf)"
    unfolding f_def tgf_def by (rule computeFirstRow_Up [OF Up])
  moreover have "computeLastRow opts n (Some f) = Inr (l, l)"
    unfolding l_def by (simp add: computeLastRow_Up [OF Up])
  ultimately have r: "computeRowsToRender opts = Inr (f, l, tgf, l)"
    unfolding n_def by (rule computeRowsToRender_Up [OF Up inv])
  have "0 \<le> tgf" unfolding tgf_def by (rule max.cobounded1)
  then have f0: "0 \<le> f" unfolding f_def by (rule max.coboundedI1)
  have "l \<le> lastRendered opts" using f0 unfolding l_def by (simp split: if_splits)
  then have "l \<le> totalRows opts - 1" using lr by linarith
  moreover have "l - f \<le> maxNumToRender opts"
    unfolding l_def by (rule up_edge_bound)
  ultimately show ?thesis using r f0 by blast
qed


text \<open>
  Claim C1. The claim is that a step on well-formed inputs returns a window of at most
  \<open>maxNumToRender\<close> rows, in both directions. With a budget of 20 rows the step
  returns 21 rows: scrolling up from the full window \<open>[10, 29]\<close> it returns \<open>[8, 28]\<close>,
  and scrolling down from the full window \<open>[0, 19]\<close> it returns \<open>[2, 22]\<close>. Both
  branches bound the difference of the edges, not the number of rows.
\<close>

theorem window_budget_exceeded:
  "step_precondition full_window_up \<and>
   computeRowsToRender full_window_up = Inr (8, 28, 8, 28) \<and>
   step_precondition full_window_down \<and>
   computeRowsToRender full_window_down = Inr (2, 22, 2, 22) \<and>
   \<not> (28 - 8 + 1 \<le> maxNumToRender full_window_up) \<and>
   \<not> (22 - 2 + 1 \<le> maxNumToRender full_window_down)"
proof -
  have up: "scrollDirection full_window_up = Up"
    and down: "scrollDirection full_window_down = Down"
    by (simp_all add: full_window_up_def full_window_down_def)
  have "computeFirstRow full_window_up 20 None = Inr (8, 8)"
    by (simp add: computeFirstRow_Up [OF up]) (simp add: full_window_up_def)
  moreover have "computeLastRow full_window_up 20 (Some 8) = Inr (28, 28)"
    by (simp add: computeLastRow_Up [OF up]) (simp add: full_window_up_def)
  ultimately have 1: "computeRowsToRender full_window_up = Inr (8, 28, 8, 28)"
    by (intro computeRowsToRender_Up [OF up]) (simp_all add: full_window_up_def)
  have "computeLastRow full_window_down 20 None = Inr (22, 22)"
    by (simp add: computeLastRow_Down [OF down]) (simp add: full_window_down_def)
  moreover have "computeFirstRow full_window_down 20 (Some 22) = Inr (2, 2)"
    by (simp add: computeFirstRow_Down [OF down]) (simp add: full_window_down_def)
  ultimately have 2: "computeRowsToRender full_window_down = Inr (2, 22, 2, 22)"
    by (intro computeRowsToRender_Down [OF down]) (simp_all add: full_window_down_def)
  have 3: "step_precondition full_window_up" "step_precondition full_window_down"
    by (simp_all add: step_precondition_def full_window_up_def full_window_down_def)
  have 4: "\<not> (28 - 8 + 1 \<le> maxNumToRender full_window_up)"
    "\<not> (22 - 2 + 1 \<le> maxNumToRender full_window_down)"
    by (simp_all add: full_window_up_def full_window_down_def)
  from 1 2 3 4 show ?thesis by blast
qed

text \<open>
  Claim C3. Scrolling down, the step returns as last row the target last row bounded by
  \<open>lastRendered + pageSize\<close>, where the target is the least of \<open>totalRows - 1\<close>,
  \<open>lastVisible + numToRenderAhead - numToRenderBehind\<close> and
  \<open>firstVisible + numRendered + numToRenderAhead - numToRenderBehind\<close>; the first row
  and its target are both the greatest of \<open>0\<close>, \<open>firstVisible - numToRenderBehind\<close> and
  \<open>lastRow - maxNumToRender\<close>, taken from the last row just computed and not bounded by
  the page size.
\<close>

theorem computeRowsToRender_down:
  assumes "scrollDirection opts = Down"
      and "numToRenderAhead opts < maxNumToRender opts"
  shows "computeRowsToRender opts =
           (let numRendered = lastRendered opts - firstRendered opts + 1;
                targetLastRow =
                  min (totalRows opts - 1)
                    (min (lastVisible opts + numToRenderAhead opts - numToRenderBehind opts)
                         (firstVisible opts + numRendered + numToRenderAhead opts
                            - numToRenderBehind opts));
                lastRow = min targetLastRow (lastRendered opts + pageSize opts);
                targetFirstRow =
                  max 0 (max (firstVisible opts - numToRenderBehind opts)
                             (lastRow - maxNumToRender opts))
            in Inr (targetFirstRow, lastRow, targetFirstRow, targetLastRow))"
  unfolding Let_def
  by (rule computeRowsToRender_Down [OF assms computeLastRow_Down [OF assms(1)]
        computeFirstRow_Down [OF assms(1)]])

text \<open>
  The worked example: budgets 20, 4, 2 and page size 5 on 100 rows, window \<open>[0, 10]\<close>,
  rows 8 to 10 visible. The step returns the window \<open>[6, 12]\<close>, which is its target.
\<close>

theorem computeRowsToRender_down_witness:
  "scrollDirection example_opts = Down \<and>
   numToRenderAhead example_opts < maxNumToRender example_opts \<and>
   computeRowsToRender example_opts = Inr (6, 12, 6, 12)"
proof -
  have d: "scrollDirection example_opts = Down"
    and a: "numToRenderAhead example_opts < maxNumToRender example_opts"
    by (simp_all add: example_opts_def)
  have "computeRowsToRender example_opts = Inr (6, 12, 6, 12)"
    unfolding computeRowsToRender_down [OF d a] by (simp add: example_opts_def)
  with d a show ?thesis by blast
qed

section \<open>Range and index arguments\<close>

text \<open>
  Claim C4, as stated: \<open>getHeightBetweenRows\<close> fails when the bounds are reversed. It
  does not: for the reversed pair \<open>(4, 2)\<close> on the example it writes one line to the
  console and returns \<open>-120\<close>.
\<close>

theorem getHeightBetweenRows_reversed:
  "getHeightBetweenRows example_ds 4 2 = Inr ([''provide the lower index first''], - 120) \<and>
   \<not> isl (getHeightBetweenRows example_ds 4 2)"
  by (simp add: getHeightBetweenRows_def getHeightBeforeRow_def heightBeforeRow_step_def
        example_lookup)

text \<open>
  Claim C4, amended. For every pair of indices \<open>getHeightBetweenRows\<close> returns the
  height before \<open>ii\<close> minus the height before \<open>i + 1\<close>; when \<open>ii < i\<close> it also reports
  the warning \<open>provide the lower index first\<close>, and it never fails.
\<close>

theorem getHeightBetweenRows_returns:
  "getHeightBetweenRows ds i ii =
     Inr (if ii < i then [''provide the lower index first''] else [],
          getHeightBeforeRow ds ii - getHeightBeforeRow ds (i + 1))"
  by (simp add: getHeightBetweenRows_def)

theorem getHeightBetweenRows_returns_witness:
  "getHeightBetweenRows example_ds 1 4 = Inr ([], 100) \<and>
   getHeightBetweenRows example_ds 6 5 = Inr ([''provide the lower index first''], - 100)"
  using getHeightBetweenRows_returns [of example_ds 1 4]
        getHeightBetweenRows_returns [of example_ds 6 5]
  by (simp add: getHeightBeforeRow_def heightBeforeRow_step_def example_lookup)

text \<open>
  Claim C5, as stated: \<open>getRowData\<close> fails for an index outside the rows. It does not:
  the example has 7 rows, and for the indices 7 and \<open>-1\<close> the array read returns
  \<open>undefined\<close>.
\<close>

theorem getRowData_out_of_range:
  "getRowCount example_ds = 7 \<and> getRowData example_ds 7 = Inr None \<and>
   getRowData example_ds (- 1) = Inr None"
  by (simp add: getRowData_def js_index_def example_rows getRowCount_def)

text \<open>
  Claim C5, amended. \<open>getRowData\<close> returns the row stored at index \<open>i\<close> for every \<open>i\<close>
  from \<open>0\<close> to \<open>rowCount - 1\<close>, and \<open>undefined\<close> for every other index; it never
  fails.
\<close>

theorem getRowData_returns:
  "getRowData ds i =
     Inr (if 0 \<le> i \<and> i < getRowCount ds then Some (dataSource ds ! nat i) else None)"
  by (simp add: getRowData_def js_index_def getRowCount_def)

theorem getRowData_returns_witness:
  "getRowData example_ds 4 = Inr (Some (SectionHeader ''B'')) \<and>
   getRowData example_ds 9 = Inr None"
  using getRowData_returns [of example_ds 4] getRowData_returns [of example_ds 9]
  by (simp add: example_rowCount example_rows)

section \<open>What \<open>cloneWithCellsAndSections\<close> builds\<close>





text \<open>A key that is not an array index goes last.\<close>

lemma js_set_fresh:
  "k \<notin> fst ` set kvs \<Longrightarrow> \<not> is_array_index k \<Longrightarrow> js_set kvs k v = kvs @ [(k, v)]"
  by (simp add: js_set_def map_of_eq_None_iff)


lemma reduce_lookup_fresh:
  "distinct sids \<Longrightarrow> set sids \<inter> fst ` set result = {} \<Longrightarrow>
   list_all (\<lambda>sid. \<not> is_array_index sid) sids \<Longrightarrow>
   reduce_lookup hh ch dataBlob sids lr cum result =
     result @ entries_from hh ch dataBlob sids (lr + 1) cum"
proof (induction sids arbitrary: lr cum result)
  case Nil
  then show ?case by simp
next
  case (Cons sid sids)
  define cnt where
    "cnt = (case map_of dataBlob sid of Some cells \<Rightarrow> int (length cells) | None \<Rightarrow> 0)"
  define e where
    "e = \<lparr>count = cnt + 1, range0 = lr + 1, range1 = lr + 1 + cnt,
          height = hh sid + ch sid * cnt, startY = cum, endY = cum + (hh sid + ch sid * cnt),
          cellHeight = ch sid, sectionHeaderHeight = hh sid, sectionId = sid\<rparr>"
  have fresh: "sid \<notin> fst ` set result" using Cons.prems(2) by auto
  have ni: "\<not> is_array_index sid" and nis: "list_all (\<lambda>sid. \<not> is_array_index sid) sids"
    using Cons.prems(3) by simp_all
  have d: "distinct sids" using Cons.prems(1) by simp
  have disj: "set sids \<inter> fst ` set (result @ [(sid, e)]) = {}"
    using Cons.prems by auto
  have "reduce_lookup hh ch dataBlob (sid # sids) lr cum result =
          reduce_lookup hh ch dataBlob sids (lr + 1 + cnt)
            (cum + (hh sid + ch sid * cnt)) (result @ [(sid, e)])"
    by (simp add: Let_def cnt_def e_def js_set_fresh [OF fresh ni])
  also have "\<dots> = (result @ [(sid, e)]) @
                 entries_from hh ch dataBlob sids (lr + 1 + cnt + 1)
                   (cum + (hh sid + ch sid * cnt))"
    by (rule Cons.IH [OF d disj nis])
  also have "\<dots> = result @ entries_from hh ch dataBlob (sid # sids) (lr + 1) cum"
    by (simp add: Let_def cnt_def e_def)
  finally show ?case .
qed

lemma push_sections_eq:
  "push_sections dataBlob sids rows present =
     (rows @ rows_of dataBlob sids,
      present @ filter (\<lambda>sid. map_of dataBlob sid \<noteq> None) sids)"
  by (induction sids arbitrary: rows present) (auto split: option.splits)



lemma clone_lookup_reduce:
  "lookup (cloneWithCellsAndSections ds0 dataBlob arg) =
     reduce_lookup (getHeightForSectionHeader ds0) (getHeightForCell ds0) dataBlob
       (filter (\<lambda>sid. map_of dataBlob sid \<noteq> None) (sectionIds_of dataBlob arg)) (- 1) 0 []"
  by (simp add: cloneWithCellsAndSections_def push_sections_eq Let_def)






lemma keys_entries_from: "map fst (entries_from hh ch dataBlob sids r y) = sids"
  by (induction sids arbitrary: r y) (auto simp: Let_def)





lemma clone_lookup_order:
  assumes "distinct (sectionIds_of dataBlob arg)"
      and "list_all (\<lambda>sid. \<not> is_array_index sid) (sectionIds_of dataBlob arg)"
  shows "map fst (lookup (cloneWithCellsAndSections ds0 dataBlob arg)) =
           filter (\<lambda>sid. map_of dataBlob sid \<noteq> None) (sectionIds_of dataBlob arg)"
proof -
  let ?p = "filter (\<lambda>sid. map_of dataBlob sid \<noteq> None) (sectionIds_of dataBlob arg)"
  have d: "distinct ?p" using assms(1) by simp
  have n: "list_all (\<lambda>sid. \<not> is_array_index sid) ?p"
    using assms(2) by (simp add: list_all_iff)
  have "reduce_lookup (getHeightForSectionHeader ds0) (getHeightForCell ds0) dataBlob ?p
          (- 1) 0 [] =
        [] @ entries_from (getHeightForSectionHeader ds0) (getHeightForCell ds0) dataBlob ?p
               (- 1 + 1) 0"
    by (rule reduce_lookup_fresh [OF d _ n]) simp
  then show ?thesis unfolding clone_lookup_reduce by (simp add: keys_entries_from)
qed

section \<open>Chained tables\<close>













section \<open>Row lookups on a built index\<close>







section \<open>Heights around a row\<close>




section \<open>Offsets on a section boundary\<close>




section \<open>The section jump\<close>

text \<open>What the synchronous part of a jump to a known section does when no jump is running.\<close>

lemma scrollToSectionBuffered_known:
  assumes "\<not> isScrollingToSection v"
      and "map_of (lookup (p_dataSource (props v))) sid = Some s"
  shows "scrollToSectionBuffered v sid =
     (let n = p_initialNumToRender (props v);
          total = getRowCount (p_dataSource (props v));
          windowLastRow = min (total - 1) (range0 s + n);
          windowFirstRow = (if windowLastRow - (total - 1) = 0 then max 0 (windowLastRow - n)
                            else range0 s)
      in Inr (v\<lparr>willComputeRowsToRender := False,
                isScrollingToSection := True,
                state := (state v)\<lparr>bufferFirstRow := Some windowFirstRow,
                                    bufferLastRow := Some windowLastRow\<rparr>\<rparr>,
              [ClearTimeout, ScrollTo (startY s) False]))"
  using assms
  by (simp add: scrollToSectionBuffered_def hasSection_def getFirstRowOfSection_def Let_def)

text \<open>
  A name inherited from \<open>Object.prototype\<close> passes \<open>hasSection\<close>, and the jump
  throws before it changes anything.
\<close>

lemma jump_to_inherited_name:
  "hasSection example_ds ''constructor'' \<and>
   scrollToSectionBuffered example_view ''constructor'' = Inl TypeError"
  by (simp add: scrollToSectionBuffered_def hasSection_def getFirstRowOfSection_def
        object_prototype_names_def example_view_simps example_lookup)

text \<open>
  Claim C8. From the idle state, a jump to a known section sets the buffer window and
  tells the scroll view to move to the section's \<open>startY\<close> without animation. The
  buffer window ends at the section's first row plus \<open>initialNumToRender\<close>, clamped to
  the last row of the list; it starts at the section's first row, unless the end
  reached the last row of the list, in which case the start is pulled back to
  \<open>initialNumToRender\<close> rows before the end (not below row 0).
\<close>

theorem scrollToSectionBuffered_buffer:
  assumes "\<not> isScrollingToSection v"
      and "map_of (lookup (p_dataSource (props v))) sid = Some s"
  shows "scrollToSectionBuffered v sid =
     (let n = p_initialNumToRender (props v);
          end_of_list = getRowCount (p_dataSource (props v)) - 1
      in Inr (v\<lparr>willComputeRowsToRender := False,
                isScrollingToSection := True,
                state := (state v)
                  \<lparr>bufferFirstRow :=
                     Some (if range0 s + n < end_of_list then range0 s
                           else max 0 (end_of_list - n)),
                   bufferLastRow := Some (min end_of_list (range0 s + n))\<rparr>\<rparr>,
              [ClearTimeout, ScrollTo (startY s) False]))"
proof -
  define n where "n = p_initialNumToRender (props v)"
  define e where "e = getRowCount (p_dataSource (props v)) - 1"
  have 1: "(if min e (range0 s + n) - e = 0 then max 0 (min e (range0 s + n) - n) else range0 s)
           = (if range0 s + n < e then range0 s else max 0 (e - n))"
    by (simp add: min_def)
  show ?thesis
    unfolding scrollToSectionBuffered_known [OF assms] Let_def
    unfolding n_def [symmetric] e_def [symmetric] 1 ..
qed

text \<open>
  On the example with \<open>initialNumToRender = 1\<close>, the jump to \<open>B\<close> sets the buffer
  window to rows 4 to 5 and moves the viewport to offset 170 without animation.
\<close>

theorem scrollToSectionBuffered_buffer_witness:
  "\<not> isScrollingToSection example_view \<and>
   scrollToSectionBuffered example_view ''B'' =
     Inr (example_view\<lparr>willComputeRowsToRender := False,
            isScrollingToSection := True,
            state := (state example_view)\<lparr>bufferFirstRow := Some 4, bufferLastRow := Some 5\<rparr>\<rparr>,
          [ClearTimeout, ScrollTo 170 False])"
  using scrollToSectionBuffered_buffer [of example_view "''B''", OF example_view_simps(2)]
  by (simp add: example_view_simps example_section_B example_rowCount)

text \<open>
  Claim C7, as stated: the first window and the buffer window of a jump hold
  \<open>initialNumToRender\<close> rows when the list is long enough. On the example, 7 rows
  long, with \<open>initialNumToRender = 1\<close>, the constructor sets the window \<open>[0, 1]\<close> and
  the jump to \<open>A\<close> sets the buffer window \<open>[0, 1]\<close>: two rows each.
\<close>

theorem initial_windows_hold_two_rows:
  "p_initialNumToRender example_props = 1 \<and>
   constructor example_props = Inr example_view \<and>
   firstRow (state example_view) = 0 \<and> lastRow (state example_view) = 1 \<and>
   scrollToSectionBuffered example_view ''A'' =
     Inr (example_view\<lparr>willComputeRowsToRender := False,
            isScrollingToSection := True,
            state := (state example_view)\<lparr>bufferFirstRow := Some 0, bufferLastRow := Some 1\<rparr>\<rparr>,
          [ClearTimeout, ScrollTo 0 False])"
proof -
  have a: "map_of (lookup example_ds) ''A'' =
     Some \<lparr>count = 4, range0 = 0, range1 = 3, height = 170, startY = 0, endY = 170,
               cellHeight = 50, sectionHeaderHeight = 20, sectionId = ''A''\<rparr>"
    by (simp add: example_lookup)
  have "constructor example_props = Inr example_view"
    unfolding constructor_def example_view_def
    by (simp add: example_view_simps example_rowCount) 
  moreover have "scrollToSectionBuffered example_view ''A'' =
     Inr (example_view\<lparr>willComputeRowsToRender := False,
            isScrollingToSection := True,
            state := (state example_view)\<lparr>bufferFirstRow := Some 0, bufferLastRow := Some 1\<rparr>\<rparr>,
          [ClearTimeout, ScrollTo 0 False])"
    using scrollToSectionBuffered_known [of example_view "''A''", OF example_view_simps(2)]
    by (simp add: example_view_simps a example_rowCount)
  moreover have "firstRow (state example_view) = 0" "lastRow (state example_view) = 1"
    by (simp_all add: example_view_def)
  ultimately show ?thesis using example_view_simps(4) by blast
qed

text \<open>
  Claim C7, amended. When no clamping at the end of the list applies, the first window
  is \<open>[0, initialNumToRender]\<close> and the buffer window of a jump is
  \<open>[row, row + initialNumToRender]\<close>, where \<open>row\<close> is the first row of the section:
  \<open>initialNumToRender + 1\<close> rows each.
\<close>

theorem windows_span_initialNumToRender:
  assumes "p_numToRenderAhead p < p_maxNumToRender p"
      and "p_numToRenderBehind p < p_maxNumToRender p"
      and "p_initialNumToRender p \<le> getRowCount (p_dataSource p) - 1"
      and "props v = p"
      and "\<not> isScrollingToSection v"
      and "map_of (lookup (p_dataSource p)) sid = Some s"
      and "0 \<le> range0 s"
      and "range0 s + p_initialNumToRender p \<le> getRowCount (p_dataSource p) - 1"
  shows "(\<exists>v0. constructor p = Inr v0 \<and> firstRow (state v0) = 0 \<and>
               lastRow (state v0) = p_initialNumToRender p \<and>
               lastRow (state v0) - firstRow (state v0) + 1 = p_initialNumToRender p + 1) \<and>
         (\<exists>v' fx. scrollToSectionBuffered v sid = Inr (v', fx) \<and>
               bufferFirstRow (state v') = Some (range0 s) \<and>
               bufferLastRow (state v') = Some (range0 s + p_initialNumToRender p))"
proof
  show "\<exists>v0. constructor p = Inr v0 \<and> firstRow (state v0) = 0 \<and>
               lastRow (state v0) = p_initialNumToRender p \<and>
               lastRow (state v0) - firstRow (state v0) + 1 = p_initialNumToRender p + 1"
    using assms(1,2,3) by (simp add: constructor_def min_def)
next
  have s: "map_of (lookup (p_dataSource (props v))) sid = Some s"
    using assms(4,6) by simp
  show "\<exists>v' fx. scrollToSectionBuffered v sid = Inr (v', fx) \<and>
               bufferFirstRow (state v') = Some (range0 s) \<and>
               bufferLastRow (state v') = Some (range0 s + p_initialNumToRender p)"
    unfolding scrollToSectionBuffered_known [OF assms(5) s] Let_def assms(4)
    using assms(7,8) by (simp add: min_def max_def)
qed

text \<open>On the example with \<open>initialNumToRender = 1\<close>: windows \<open>[0, 1]\<close> and \<open>[4, 5]\<close>.\<close>

theorem windows_span_initialNumToRender_witness:
  "p_initialNumToRender example_props = 1 \<and>
   (\<exists>v0. constructor example_props = Inr v0 \<and> firstRow (state v0) = 0 \<and>
         lastRow (state v0) = 1 \<and> lastRow (state v0) - firstRow (state v0) + 1 = 2) \<and>
   (\<exists>v' fx. scrollToSectionBuffered example_view ''B'' = Inr (v', fx) \<and>
         bufferFirstRow (state v') = Some 4 \<and> bufferLastRow (state v') = Some 5)"
  using windows_span_initialNumToRender [of example_props example_view "''B''",
          OF example_view_simps(5,6) _ example_view_simps(1,2)]
  by (simp add: example_view_simps example_section_B example_rowCount)

end
